theory Spec2Isabelle
  imports Main
begin

section \<open>The document tree\<close>

text \<open>
  The editor of \<^verbatim>\<open>src/components/RichTextEditor.tsx\<close> works on the browser's document
  tree through the DOM. A node is a text node or an element; an element has a tag (kept in
  lower case, as \<^verbatim>\<open>tagName.toLowerCase()\<close> reads it), its attributes and its children.
  Of the attributes, the inline style is held as the list of its declarations (the CSS
  declaration block behind \<^verbatim>\<open>element.style\<close>), the class attribute as the list of its tokens
  (\<^verbatim>\<open>element.classList\<close>), and all others as name/value pairs.

  A node is named by its path from the root of the tree: the list of child indices that
  leads to it. A boundary point of a range is a path and an offset (a character offset in a
  text node, a child index in an element). The root stands for the document element; it
  has no parent element.

  The operations of the host that the editor calls (\<^verbatim>\<open>closest\<close>, \<^verbatim>\<open>cloneContents\<close>,
  \<^verbatim>\<open>extractContents\<close>, \<^verbatim>\<open>insertNode\<close>, \<^verbatim>\<open>surroundContents\<close>, \<^verbatim>\<open>replaceChild\<close>) are
  written out here after the DOM standard, on this tree; the functions of the component
  itself follow in the section on the editor, in the order of the source.
\<close>

type_synonym path = "nat list"

record attrs =
  style :: "(string \<times> string) list"
  classList :: "string list"
  attributes :: "(string \<times> string) list"

datatype node = Text string | Element string attrs "node list"

definition no_attrs :: attrs where
  "no_attrs = \<lparr>style = [], classList = [], attributes = []\<rparr>"

text \<open>\<^verbatim>\<open>document.createElement(tag)\<close>: a fresh element without attributes or children.\<close>

definition createElement :: "string \<Rightarrow> node" where
  "createElement t = Element t no_attrs []"

fun node_at :: "node \<Rightarrow> path \<Rightarrow> node option" where
  "node_at n [] = Some n"
| "node_at n (i # p) =
     (case n of
        Text d \<Rightarrow> None
      | Element t a cs \<Rightarrow> (if i < length cs then node_at (cs ! i) p else None))"

fun replace_at :: "node \<Rightarrow> path \<Rightarrow> node \<Rightarrow> node" where
  "replace_at n [] new = new"
| "replace_at n (i # p) new =
     (case n of
        Text d \<Rightarrow> Text d
      | Element t a cs \<Rightarrow>
          (if i < length cs then Element t a (cs[i := replace_at (cs ! i) p new])
           else Element t a cs))"

definition is_text :: "node \<Rightarrow> path \<Rightarrow> bool" where
  "is_text doc p = (case node_at doc p of Some (Text d) \<Rightarrow> True | _ \<Rightarrow> False)"


definition tagName :: "node \<Rightarrow> string" where
  "tagName n = (case n of Text d \<Rightarrow> [] | Element t a cs \<Rightarrow> t)"

text \<open>\<^verbatim>\<open>node.parentElement\<close>: the root of the tree has none.\<close>

definition parentElement :: "path \<Rightarrow> path option" where
  "parentElement p = (if p = [] then None else Some (butlast p))"


subsection \<open>Ancestor walks\<close>

text \<open>
  \<^verbatim>\<open>hasParentWithTag\<close> (lines 18-26) walks from an element through \<^verbatim>\<open>parentElement\<close> until
  it finds one of the tags or runs out of elements. \<^verbatim>\<open>closest\<close> is the DOM's
  \<^verbatim>\<open>Element.closest\<close> for a selector that is a list of tag names: the nearest inclusive
  ancestor whose tag is in the list.
\<close>

function hasParentWithTag :: "node \<Rightarrow> path option \<Rightarrow> string list \<Rightarrow> bool" where
  "hasParentWithTag doc element tagNames =
     (case element of
        None \<Rightarrow> False
      | Some p \<Rightarrow>
          (case node_at doc p of
             Some (Element t a cs) \<Rightarrow>
               (if t \<in> set tagNames then True
                else hasParentWithTag doc (parentElement p) tagNames)
           | _ \<Rightarrow> False))"
  by pat_completeness auto
termination
  by (relation "measure (\<lambda>(doc, e, ts). case e of None \<Rightarrow> 0 | Some p \<Rightarrow> Suc (length p))")
     (auto simp: parentElement_def)

declare hasParentWithTag.simps [simp del]

function closest :: "node \<Rightarrow> path \<Rightarrow> string list \<Rightarrow> path option" where
  "closest doc p selectors =
     (case node_at doc p of
        Some (Element t a cs) \<Rightarrow>
          (if t \<in> set selectors then Some p
           else (case parentElement p of None \<Rightarrow> None | Some q \<Rightarrow> closest doc q selectors))
      | _ \<Rightarrow> None)"
  by pat_completeness auto
termination
  by (relation "measure (\<lambda>(doc, p, ts). length p)") (auto simp: parentElement_def split: if_splits)

declare closest.simps [simp del]

section \<open>Ranges\<close>

text \<open>
  A \<^verbatim>\<open>Range\<close> has a start and an end boundary point. Boundary points are ordered in tree
  order: the lexicographic order of the path extended by the offset, a prefix coming first.
\<close>

record range =
  startContainer :: path
  startOffset :: nat
  endContainer :: path
  endOffset :: nat

definition collapsed :: "range \<Rightarrow> bool" where
  "collapsed r = (startContainer r = endContainer r \<and> startOffset r = endOffset r)"

fun common_prefix :: "path \<Rightarrow> path \<Rightarrow> path" where
  "common_prefix (x # xs) (y # ys) = (if x = y then x # common_prefix xs ys else [])"
| "common_prefix xs ys = []"

definition commonAncestorContainer :: "range \<Rightarrow> path" where
  "commonAncestorContainer r = common_prefix (startContainer r) (endContainer r)"





subsection \<open>Cloning and extracting the contents of a range\<close>

text \<open>
  \<open>split_node n p k\<close> cuts the node \<open>n\<close> at the boundary point \<open>(p, k)\<close> inside it: the
  first component keeps what lies before the point, the second what lies after it, and
  every element on the way to the point appears in both (the DOM clones a partially
  contained element and moves the contained part of its children into the clone).
\<close>

fun split_node :: "node \<Rightarrow> path \<Rightarrow> nat \<Rightarrow> node \<times> node" where
  "split_node n [] k =
     (case n of
        Text d \<Rightarrow> (Text (take k d), Text (drop k d))
      | Element t a cs \<Rightarrow> (Element t a (take k cs), Element t a (drop k cs)))"
| "split_node n (i # p) k =
     (case n of
        Text d \<Rightarrow> (Text d, Text [])
      | Element t a cs \<Rightarrow>
          (if i < length cs then
             (let (l, r) = split_node (cs ! i) p k
              in (Element t a (take i cs @ [l]), Element t a (r # drop (Suc i) cs)))
           else (Element t a cs, Element t a [])))"

text \<open>
  The DOM's extract algorithm, run at the common ancestor \<open>c\<close> of a range that is not
  collapsed; \<open>s1\<close> and \<open>s2\<close> are the paths of the start and the end container below \<open>c\<close>.
  The result is the extracted fragment, what is left of \<open>c\<close>, and the offset in \<open>c\<close> at
  which the range collapses.
\<close>

definition extract_in ::
  "node \<Rightarrow> path \<Rightarrow> nat \<Rightarrow> path \<Rightarrow> nat \<Rightarrow> node list \<times> node \<times> nat" where
  "extract_in c s1 k1 s2 k2 =
     (case c of
        Text d \<Rightarrow> ([Text (take (k2 - k1) (drop k1 d))], Text (take k1 d @ drop k2 d), k1)
      | Element t a cs \<Rightarrow>
          (case (s1, s2) of
             ([], []) \<Rightarrow>
               (take (k2 - k1) (drop k1 cs), Element t a (take k1 cs @ drop k2 cs), k1)
           | ([], j # q) \<Rightarrow>
               (let (l, r) = split_node (cs ! j) q k2
                in (take (j - k1) (drop k1 cs) @ [l],
                    Element t a (take k1 cs @ [r] @ drop (Suc j) cs), k1))
           | (i # p, []) \<Rightarrow>
               (let (l, r) = split_node (cs ! i) p k1
                in ([r] @ take (k2 - Suc i) (drop (Suc i) cs),
                    Element t a (take i cs @ [l] @ drop k2 cs), Suc i))
           | (i # p, j # q) \<Rightarrow>
               (let (l1, r1) = split_node (cs ! i) p k1;
                    (l2, r2) = split_node (cs ! j) q k2
                in ([r1] @ take (j - Suc i) (drop (Suc i) cs) @ [l2],
                    Element t a (take i cs @ [l1, r2] @ drop (Suc j) cs), Suc i))))"

definition below :: "range \<Rightarrow> path \<times> path" where
  "below r = (let n = length (commonAncestorContainer r)
              in (drop n (startContainer r), drop n (endContainer r)))"

text \<open>\<^verbatim>\<open>range.cloneContents()\<close>: the fragment alone; the tree is not touched.\<close>

definition cloneContents :: "node \<Rightarrow> range \<Rightarrow> node list" where
  "cloneContents doc r =
     (if collapsed r then []
      else (case node_at doc (commonAncestorContainer r) of
              None \<Rightarrow> []
            | Some c \<Rightarrow>
                fst (extract_in c (fst (below r)) (startOffset r) (snd (below r)) (endOffset r))))"

text \<open>
  \<^verbatim>\<open>range.extractContents()\<close>: the fragment, the tree without it, and the range, which
  has collapsed to the place the contents were taken from.
\<close>

definition extractContents :: "node \<Rightarrow> range \<Rightarrow> node list \<times> node \<times> range" where
  "extractContents doc r =
     (if collapsed r then ([], doc, r)
      else (let ca = commonAncestorContainer r
            in (case node_at doc ca of
                  None \<Rightarrow> ([], doc, r)
                | Some c \<Rightarrow>
                    (let (frag, c', k) =
                           extract_in c (fst (below r)) (startOffset r) (snd (below r)) (endOffset r)
                     in (frag, replace_at doc ca c',
                         \<lparr>startContainer = ca, startOffset = k,
                          endContainer = ca, endOffset = k\<rparr>)))))"


subsection \<open>Inserting a node and surrounding the contents of a range\<close>

datatype dom_exception = InvalidStateError | HierarchyRequestError

text \<open>
  \<^verbatim>\<open>range.insertNode(node)\<close>, for the collapsed range at the boundary point \<open>(cn, k)\<close>
  (every call of the editor is on a collapsed range or follows an extraction). A text
  node is split at the offset and the new node goes between the halves; in an element the
  new node goes before the child at the offset. The result is the new tree, the parent of
  the new node, and its index there. A text node without a parent cannot take a sibling.
\<close>

definition insertNode ::
  "node \<Rightarrow> path \<Rightarrow> nat \<Rightarrow> node \<Rightarrow> dom_exception + (node \<times> path \<times> nat)" where
  "insertNode doc cn k new =
     (case node_at doc cn of
        None \<Rightarrow> Inl HierarchyRequestError
      | Some (Text d) \<Rightarrow>
          (case parentElement cn of
             None \<Rightarrow> Inl HierarchyRequestError
           | Some par \<Rightarrow>
               (case node_at doc par of
                  Some (Element t a cs) \<Rightarrow>
                    Inr (replace_at doc par
                           (Element t a (take (last cn) cs @
                              [Text (take k d), new, Text (drop k d)] @ drop (Suc (last cn)) cs)),
                         par, Suc (last cn))
                | _ \<Rightarrow> Inl HierarchyRequestError))
      | Some (Element t a cs) \<Rightarrow>
          Inr (replace_at doc cn (Element t a (take k cs @ [new] @ drop k cs)),
               cn, min k (length cs)))"

text \<open>
  A node is partially contained in a range when it is an inclusive ancestor of the start
  container but not of the end container, or the other way round. The inclusive ancestors
  of a node are the prefixes of its path.
\<close>

fun prefixes_of :: "path \<Rightarrow> path list" where
  "prefixes_of [] = [[]]"
| "prefixes_of (x # xs) = [] # map ((#) x) (prefixes_of xs)"

definition is_inclusive_ancestor :: "path \<Rightarrow> path \<Rightarrow> bool" where
  "is_inclusive_ancestor q p = (take (length q) p = q)"

definition partially_contained :: "range \<Rightarrow> path \<Rightarrow> bool" where
  "partially_contained r q =
     (is_inclusive_ancestor q (startContainer r) \<noteq> is_inclusive_ancestor q (endContainer r))"

definition partially_contains_non_text :: "node \<Rightarrow> range \<Rightarrow> bool" where
  "partially_contains_non_text doc r =
     (\<exists>q \<in> set (prefixes_of (startContainer r) @ prefixes_of (endContainer r)).
        partially_contained r q \<and> \<not> is_text doc q)"

definition with_children :: "node \<Rightarrow> node list \<Rightarrow> node" where
  "with_children n cs = (case n of Text d \<Rightarrow> Text d | Element t a old \<Rightarrow> Element t a cs)"

text \<open>
  \<^verbatim>\<open>range.surroundContents(newParent)\<close>, step by step as the DOM standard has it: throw
  \<^verbatim>\<open>InvalidStateError\<close> if a non-text node is partially contained; extract the contents;
  insert \<open>newParent\<close> at the collapsed range; move the fragment into it; select it. An
  exception carries the tree and the range as they are when it is thrown.
\<close>

definition surroundContents ::
  "node \<Rightarrow> range \<Rightarrow> node \<Rightarrow> (dom_exception \<times> node \<times> range) + (node \<times> range)" where
  "surroundContents doc r newParent =
     (if partially_contains_non_text doc r then Inl (InvalidStateError, doc, r)
      else (let (frag, doc1, r1) = extractContents doc r
            in (case insertNode doc1 (startContainer r1) (startOffset r1)
                       (with_children newParent frag) of
                  Inl e \<Rightarrow> Inl (e, doc1, r1)
                | Inr (doc2, par, w) \<Rightarrow>
                    Inr (doc2, \<lparr>startContainer = par, startOffset = w,
                                endContainer = par, endOffset = Suc w\<rparr>))))"

subsection \<open>Replacing a child\<close>




subsection \<open>Markup\<close>



section \<open>Strings, styles and class lists\<close>

fun is_prefix :: "string \<Rightarrow> string \<Rightarrow> bool" where
  "is_prefix [] ys = True"
| "is_prefix (x # xs) [] = False"
| "is_prefix (x # xs) (y # ys) = (x = y \<and> is_prefix xs ys)"


text \<open>The substring test of the attribute selector \<^verbatim>\<open>[style*="needle"]\<close>.\<close>

fun includes_str :: "string \<Rightarrow> string \<Rightarrow> bool" where
  "includes_str [] needle = (needle = [])"
| "includes_str (c # cs) needle = (is_prefix needle (c # cs) \<or> includes_str cs needle)"

text \<open>\<^verbatim>\<open>s.trim()\<close>, for the white space of ASCII.\<close>

definition is_space :: "char \<Rightarrow> bool" where
  "is_space c = (c \<in> set [CHR '' '', CHR 0x09, CHR 0x0A, CHR 0x0B, CHR 0x0C, CHR 0x0D])"

definition trim :: "string \<Rightarrow> string" where
  "trim s = rev (dropWhile is_space (rev (dropWhile is_space s)))"

text \<open>\<^verbatim>\<open>s.toLowerCase()\<close>, for the letters of ASCII.\<close>

definition lower_char :: "char \<Rightarrow> char" where
  "lower_char c =
     (case map_of (zip ''ABCDEFGHIJKLMNOPQRSTUVWXYZ'' ''abcdefghijklmnopqrstuvwxyz'') c of
        None \<Rightarrow> c | Some l \<Rightarrow> l)"

definition toLowerCase :: "string \<Rightarrow> string" where
  "toLowerCase s = map lower_char s"

fun split_on :: "char \<Rightarrow> string \<Rightarrow> string list" where
  "split_on c [] = [[]]"
| "split_on c (x # xs) =
     (if x = c then [] # split_on c xs
      else (case split_on c xs of [] \<Rightarrow> [[x]] | w # ws \<Rightarrow> (x # w) # ws))"

text \<open>
  The inline style. Its text, the \<^verbatim>\<open>style\<close> attribute, is the serialisation of the
  declaration block (\<^verbatim>\<open>name: value;\<close>, declarations separated by one space); assigning a
  string to \<^verbatim>\<open>element.style\<close> parses the string into declarations. Whether a declaration
  is valid CSS is not checked here.
\<close>

fun cssText :: "(string \<times> string) list \<Rightarrow> string" where
  "cssText [] = []"
| "cssText [(p, v)] = p @ '': '' @ v @ '';''"
| "cssText ((p, v) # ds) = p @ '': '' @ v @ ''; '' @ cssText ds"

definition parse_declaration :: "string \<Rightarrow> (string \<times> string) option" where
  "parse_declaration s =
     (let p = trim (takeWhile (\<lambda>c. c \<noteq> CHR '':'') s);
          v = trim (drop 1 (dropWhile (\<lambda>c. c \<noteq> CHR '':'') s))
      in if p = [] \<or> v = [] then None else Some (p, v))"

definition parse_cssText :: "string \<Rightarrow> (string \<times> string) list" where
  "parse_cssText s = List.map_filter parse_declaration (split_on CHR '';'' s)"

text \<open>\<^verbatim>\<open>Object.assign(element, {style: text})\<close>.\<close>

definition assign_style :: "node \<Rightarrow> string \<Rightarrow> node" where
  "assign_style n text =
     (case n of Text d \<Rightarrow> Text d | Element t a cs \<Rightarrow> Element t (a\<lparr>style := parse_cssText text\<rparr>) cs)"

text \<open>\<^verbatim>\<open>element.style.setProperty\<close>: an existing declaration is updated, a new one appended.\<close>

definition setProperty :: "string \<Rightarrow> string \<Rightarrow> (string \<times> string) list \<Rightarrow> (string \<times> string) list" where
  "setProperty p v ds =
     (if p \<in> set (map fst ds) then map (\<lambda>(k, x). if k = p then (k, v) else (k, x)) ds
      else ds @ [(p, v)])"

text \<open>\<^verbatim>\<open>classList.remove(...tokens)\<close> and \<^verbatim>\<open>classList.add(token)\<close>.\<close>

definition classList_remove :: "string list \<Rightarrow> string list \<Rightarrow> string list" where
  "classList_remove tokens cl = filter (\<lambda>c. c \<notin> set tokens) cl"

definition classList_add :: "string \<Rightarrow> string list \<Rightarrow> string list" where
  "classList_add token cl = (if token \<in> set cl then cl else cl @ [token])"

text \<open>
  \<^verbatim>\<open>tempDiv.querySelector('[style*="needle"]') !== null\<close>: some element among the
  descendants of \<open>tempDiv\<close> has a style attribute whose text contains the needle.
\<close>

fun style_matches :: "string \<Rightarrow> node \<Rightarrow> bool" where
  "style_matches needle (Text d) = False"
| "style_matches needle (Element t a cs) =
     (includes_str (cssText (style a)) needle \<or> list_ex (style_matches needle) cs)"








section \<open>The editor\<close>

text \<open>
  The state of the component: the document tree, whether \<^verbatim>\<open>editorRef\<close> is bound, the
  range of the window's selection (\<open>None\<close> when \<^verbatim>\<open>rangeCount\<close> is 0), the five signals of
  the formatting state, and what the component has sent to the host: the messages of
  \<^verbatim>\<open>alert\<close> and the commands of \<^verbatim>\<open>document.execCommand\<close>. The content signal and the
  \<^verbatim>\<open>onContentChange\<close> callback carry the serialised markup and are not part of the model.

  The computed style of an element is the host's business (style sheets, inheritance); it
  is a parameter \<open>gcs\<close> of every operation that reads it.
\<close>

record editor_state =
  doc :: node
  editorRef :: bool
  selection :: "range option"
  isBold :: bool
  isItalic :: bool
  isUnderline :: bool
  isStrikethrough :: bool
  currentBlock :: string
  alerts :: "string list"
  execCommands :: "string list"

type_synonym computed_style = "node \<Rightarrow> path \<Rightarrow> string \<Rightarrow> string"

datatype 'a outcome = Returned 'a | Thrown dom_exception 'a

text \<open>The element a container stands for: a text node's parent, else the node itself.\<close>

definition element_of :: "node \<Rightarrow> path \<Rightarrow> path option" where
  "element_of d container = (if is_text d container then parentElement container else Some container)"

definition tag_at :: "node \<Rightarrow> path \<Rightarrow> string" where
  "tag_at d p = (case node_at d p of None \<Rightarrow> [] | Some n \<Rightarrow> tagName n)"

subsection \<open>The selection inspector\<close>

text \<open>\<^verbatim>\<open>hasStyle\<close>, lines 29-49.\<close>

definition hasStyle :: "computed_style \<Rightarrow> editor_state \<Rightarrow> string \<Rightarrow> string \<Rightarrow> bool" where
  "hasStyle gcs st styleProp val =
     (case selection st of
        None \<Rightarrow> False
      | Some r \<Rightarrow>
          (if collapsed r then
             (case element_of (doc st) (startContainer r) of
                None \<Rightarrow> False
              | Some element \<Rightarrow> gcs (doc st) element styleProp = val)
           else list_ex (style_matches (styleProp @ '':'' @ val)) (cloneContents (doc st) r)))"

text \<open>\<^verbatim>\<open>updateEditorState\<close>, lines 52-93.\<close>

definition block_tags :: "string list" where
  "block_tags = [''h1'', ''h2'', ''h3'', ''p'', ''div'', ''li'', ''ul'', ''ol'']"

definition updateEditorState :: "computed_style \<Rightarrow> editor_state \<Rightarrow> editor_state" where
  "updateEditorState gcs st =
     (if \<not> editorRef st then st
      else (case selection st of
              None \<Rightarrow> st
            | Some r \<Rightarrow>
                (case element_of (doc st) (commonAncestorContainer r) of
                   None \<Rightarrow> st
                 | Some element \<Rightarrow>
                     (let st1 = st
                            \<lparr>isBold := hasParentWithTag (doc st) (Some element) [''b'', ''strong'']
                                 \<or> hasStyle gcs st ''font-weight'' ''bold''
                                 \<or> hasStyle gcs st ''font-weight'' ''700'',
                             isItalic := hasParentWithTag (doc st) (Some element) [''i'', ''em'']
                                 \<or> hasStyle gcs st ''font-style'' ''italic'',
                             isUnderline := hasParentWithTag (doc st) (Some element) [''u'']
                                 \<or> hasStyle gcs st ''text-decoration'' ''underline'',
                             isStrikethrough :=
                                 hasParentWithTag (doc st) (Some element) [''s'', ''strike'', ''del'']
                                 \<or> hasStyle gcs st ''text-decoration'' ''line-through''\<rparr>
                      in (case closest (doc st) element block_tags of
                            None \<Rightarrow> st1
                          | Some blockElement \<Rightarrow>
                              st1\<lparr>currentBlock := tag_at (doc st) blockElement\<rparr>)))))"

subsection \<open>The formatting mutator\<close>

text \<open>
  Every operation that ends in \<^verbatim>\<open>surroundContents\<close> goes on with the new tree and the
  range around the new element, or stops with the exception: the source has no
  \<^verbatim>\<open>try\<close>, so what the primitive throws leaves the handler.
\<close>

definition surround ::
  "computed_style \<Rightarrow> editor_state \<Rightarrow> range \<Rightarrow> node \<Rightarrow> editor_state outcome" where
  "surround gcs st r newParent =
     (case surroundContents (doc st) r newParent of
        Inl (e, d, r') \<Rightarrow> Thrown e (st\<lparr>doc := d, selection := Some r'\<rparr>)
      | Inr (d, r') \<Rightarrow> Returned (updateEditorState gcs (st\<lparr>doc := d, selection := Some r'\<rparr>)))"

text \<open>\<^verbatim>\<open>toggleFormat\<close>, lines 96-141. The \<^verbatim>\<open>switch\<close> has no default case.\<close>

definition format_element :: "string \<Rightarrow> node option" where
  "format_element format =
     (if format = ''bold'' then
        Some (assign_style (createElement ''strong'') ''font-weight: bold;'')
      else if format = ''italic'' then
        Some (assign_style (createElement ''em'') ''font-style: italic;'')
      else if format = ''underline'' then
        Some (assign_style (createElement ''u'') ''text-decoration: underline;'')
      else if format = ''strikeThrough'' then
        Some (assign_style (createElement ''s'') ''text-decoration: line-through;'')
      else None)"

definition toggleFormat :: "computed_style \<Rightarrow> string \<Rightarrow> editor_state \<Rightarrow> editor_state outcome" where
  "toggleFormat gcs format st =
     (if \<not> editorRef st then Returned st
      else (case selection st of
              None \<Rightarrow> Returned st
            | Some r \<Rightarrow>
                (case format_element format of
                   None \<Rightarrow> Returned (updateEditorState gcs st)
                 | Some newParent \<Rightarrow> surround gcs st r newParent)))"








text \<open>\<^verbatim>\<open>formatAlignment\<close>, lines 234-267.\<close>

datatype alignment = left | center | right

definition alignment_name :: "alignment \<Rightarrow> string" where
  "alignment_name a = (case a of left \<Rightarrow> ''left'' | center \<Rightarrow> ''center'' | right \<Rightarrow> ''right'')"

definition alignment_class :: "alignment \<Rightarrow> string" where
  "alignment_class a =
     (case a of left \<Rightarrow> ''text-left'' | center \<Rightarrow> ''text-center'' | right \<Rightarrow> ''text-right'')"

definition alignment_classes :: "string list" where
  "alignment_classes = [''text-left'', ''text-center'', ''text-right'']"

definition align_element :: "alignment \<Rightarrow> node \<Rightarrow> node" where
  "align_element al n =
     (case n of
        Text d \<Rightarrow> Text d
      | Element t a cs \<Rightarrow>
          Element t
            (a\<lparr>classList :=
                 classList_add (alignment_class al)
                   (classList_remove alignment_classes (classList a)),
               style := setProperty ''text-align'' (alignment_name al) (style a)\<rparr>) cs)"

definition formatAlignment :: "computed_style \<Rightarrow> alignment \<Rightarrow> editor_state \<Rightarrow> editor_state" where
  "formatAlignment gcs al st =
     (if \<not> editorRef st then st
      else (case selection st of
              None \<Rightarrow> st
            | Some r \<Rightarrow>
                (case element_of (doc st) (commonAncestorContainer r) of
                   None \<Rightarrow> st
                 | Some blockElement \<Rightarrow>
                     (case node_at (doc st) blockElement of
                        None \<Rightarrow> st
                      | Some b \<Rightarrow>
                          updateEditorState gcs
                            (st\<lparr>doc := replace_at (doc st) blockElement (align_element al b)\<rparr>)))))"



text \<open>
  \<^verbatim>\<open>handleKeyDown\<close>, lines 322-347. The first component of the result tells whether
  \<^verbatim>\<open>preventDefault\<close> was called on the event. Undo and redo are requests to the host's own
  edit history; the model records the request.
\<close>

record key_event =
  ctrlKey :: bool
  metaKey :: bool
  key :: string

definition execCommand :: "string \<Rightarrow> editor_state \<Rightarrow> editor_state" where
  "execCommand c st = st\<lparr>execCommands := execCommands st @ [c]\<rparr>"

definition handleKeyDown ::
  "computed_style \<Rightarrow> key_event \<Rightarrow> editor_state \<Rightarrow> bool \<times> editor_state outcome" where
  "handleKeyDown gcs e st =
     (if ctrlKey e \<or> metaKey e then
        (True,
         (let k = toLowerCase (key e)
          in if k = ''b'' then toggleFormat gcs ''bold'' st
             else if k = ''i'' then toggleFormat gcs ''italic'' st
             else if k = ''u'' then toggleFormat gcs ''underline'' st
             else if k = ''z'' then Returned (execCommand ''undo'' st)
             else if k = ''y'' then Returned (execCommand ''redo'' st)
             else Returned st))
      else (False, Returned st))"

section \<open>Example states\<close>

text \<open>
  A host without style sheets, the state of the component after mounting with a given
  tree and selection, and the trees the examples below run on.
\<close>

definition no_computed_style :: computed_style where
  "no_computed_style d p s = []"

definition mounted :: "node \<Rightarrow> range \<Rightarrow> editor_state" where
  "mounted d r =
     \<lparr>doc = d, editorRef = True, selection = Some r,
      isBold = False, isItalic = False, isUnderline = False, isStrikethrough = False,
      currentBlock = ''p'', alerts = [], execCommands = []\<rparr>"

definition span_of :: "path \<Rightarrow> nat \<Rightarrow> path \<Rightarrow> nat \<Rightarrow> range" where
  "span_of p i q j = \<lparr>startContainer = p, startOffset = i, endContainer = q, endOffset = j\<rparr>"

definition state_of :: "'a outcome \<Rightarrow> 'a" where
  "state_of x = (case x of Returned s \<Rightarrow> s | Thrown e s \<Rightarrow> s)"

definition hello_doc :: node where
  "hello_doc = Element ''div'' no_attrs [Element ''p'' no_attrs [Text ''Hello'']]"

definition hello_state :: editor_state where
  "hello_state = mounted hello_doc (span_of [0, 0] 1 [0, 0] 4)"

definition bare_doc :: node where
  "bare_doc = Element ''html'' no_attrs [Element ''body'' no_attrs [Text ''x'']]"

definition bare_state :: editor_state where
  "bare_state = (mounted bare_doc (span_of [0, 0] 0 [0, 0] 1))\<lparr>currentBlock := ''h1''\<rparr>"


definition aligned_state :: editor_state where
  "aligned_state =
     mounted
       (Element ''div'' no_attrs
          [Element ''p''
             \<lparr>style = [(''text-align'', ''left''), (''color'', ''red'')],
              classList = [''intro'', ''text-left'', ''text-right''], attributes = []\<rparr>
             [Text ''Hello'']])
       (span_of [0, 0] 1 [0, 0] 4)"









section \<open>Properties of the tree primitives\<close>


lemma node_at_replace_at:
  "node_at d p = Some n \<Longrightarrow> node_at (replace_at d p m) p = Some m"
  by (induction p arbitrary: d) (auto split: node.splits if_splits)

lemma node_at_parent_Element:
  "node_at d p = Some n \<Longrightarrow> p \<noteq> [] \<Longrightarrow> \<exists>t a cs. node_at d (butlast p) = Some (Element t a cs)"
proof (induction p arbitrary: d)
  case Nil
  then show ?case by simp
next
  case (Cons i p)
  then show ?case by (cases d; cases "p = []") (auto split: if_splits)
qed

lemma ancestor_cases:
  "is_inclusive_ancestor q p \<longleftrightarrow> q = p \<or> (p \<noteq> [] \<and> is_inclusive_ancestor q (butlast p))"
proof (cases "length p \<le> length q")
  case True
  have "take (length q) (butlast p) = q \<Longrightarrow> p = []"
  proof -
    assume "take (length q) (butlast p) = q"
    then have "length (take (length q) (butlast p)) = length q" by simp
    then have "length q \<le> length p - 1" by simp
    with True have "\<not> 0 < length p" by linarith
    then show "p = []" by simp
  qed
  with True show ?thesis
    by (auto simp: is_inclusive_ancestor_def)
next
  case False
  then have "take (length q) (butlast p) = take (length q) p"
    by (simp add: take_butlast)
  with False show ?thesis
    by (auto simp: is_inclusive_ancestor_def)
qed

lemma closest_Some:
  "closest d p sel = Some b \<Longrightarrow>
     is_inclusive_ancestor b p \<and> tag_at d b \<in> set sel \<and>
     (\<forall>q. is_inclusive_ancestor q p \<and> length b < length q \<longrightarrow> tag_at d q \<notin> set sel)"
proof (induction d p sel rule: closest.induct)
  case (1 d p sel)
  from "1.prems" obtain t a cs where n: "node_at d p = Some (Element t a cs)"
    by (subst (asm) closest.simps) (auto split: option.splits node.splits)
  show ?case
  proof (cases "t \<in> set sel")
    case True
    with n "1.prems" have "b = p" by (subst (asm) closest.simps) simp
    with n True show ?thesis
      by (auto simp: tag_at_def tagName_def is_inclusive_ancestor_def)
  next
    case False
    with n "1.prems" have ne: "p \<noteq> []" and c: "closest d (butlast p) sel = Some b"
      by (subst (asm) closest.simps; simp add: parentElement_def split: if_splits)+
    have pe: "parentElement p = Some (butlast p)" using ne by (simp add: parentElement_def)
    from "1.IH" [OF n refl False pe c]
    have ih: "is_inclusive_ancestor b (butlast p)" "tag_at d b \<in> set sel"
      "\<And>q. is_inclusive_ancestor q (butlast p) \<Longrightarrow> length b < length q \<Longrightarrow> tag_at d q \<notin> set sel"
      by auto
    have "tag_at d p \<notin> set sel" using n False by (simp add: tag_at_def tagName_def)
    with ih ne show ?thesis
      by (subst ancestor_cases, subst (2) ancestor_cases) auto
  qed
qed

lemma closest_None:
  "closest d p sel = None \<Longrightarrow> node_at d p = Some (Element t a cs) \<Longrightarrow>
     is_inclusive_ancestor q p \<Longrightarrow> tag_at d q \<notin> set sel"
proof (induction d p sel arbitrary: t a cs rule: closest.induct)
  case (1 d p sel)
  from "1.prems" have nt: "t \<notin> set sel"
    by (subst (asm) closest.simps) (auto split: if_splits)
  show ?case
  proof (cases "q = p")
    case True
    with "1.prems" nt show ?thesis by (simp add: tag_at_def tagName_def)
  next
    case False
    with "1.prems"(3) have ne: "p \<noteq> []" and anc: "is_inclusive_ancestor q (butlast p)"
      by (subst (asm) ancestor_cases; simp)+
    have pe: "parentElement p = Some (butlast p)" using ne by (simp add: parentElement_def)
    from "1.prems" nt pe have c: "closest d (butlast p) sel = None"
      by (subst (asm) closest.simps) simp
    from node_at_parent_Element [OF "1.prems"(2) ne] obtain t' a' cs'
      where "node_at d (butlast p) = Some (Element t' a' cs')" by blast
    from "1.IH" [OF "1.prems"(2) refl nt pe c this anc] show ?thesis .
  qed
qed

lemma doc_updateEditorState: "doc (updateEditorState gcs st) = doc st"
  by (simp add: updateEditorState_def Let_def split: option.splits)

section \<open>The selection inspector\<close>

text \<open>
  C1. Toggling bold on a selection inside plain text and inspecting again should report
  \<open>isBold\<close>. On the paragraph \<open>Hello\<close> with \<open>ell\<close> selected the code wraps the selection in
  a \<open>strong\<close> element with the style \<open>font-weight: bold;\<close>, and then reports \<open>isBold\<close> as
  false: the range now selects the new element, so the walk over the ancestors starts at
  the paragraph, and the style test looks for the text \<open>font-weight:bold\<close>, without the
  space that the style just written has.
\<close>

theorem toggleFormat_bold_not_reported:
  "doc (state_of (toggleFormat no_computed_style ''bold'' hello_state)) =
     Element ''div'' no_attrs
       [Element ''p'' no_attrs
          [Text ''H'',
           Element ''strong'' (no_attrs\<lparr>style := [(''font-weight'', ''bold'')]\<rparr>) [Text ''ell''],
           Text ''o'']]
   \<and> isBold (state_of (toggleFormat no_computed_style ''bold'' hello_state)) = False"
  by code_simp

text \<open>
  C9 as stated fails: with no element of the block vocabulary at or above the anchor the
  inspector does not report \<open>p\<close>; it leaves the block signal as it was. Here the signal
  was \<open>h1\<close> and the anchor is the \<open>body\<close> element.
\<close>

theorem updateEditorState_no_block_counterexample:
  "element_of (doc bare_state) (commonAncestorContainer (span_of [0, 0] 0 [0, 0] 1)) = Some [0]
   \<and> closest (doc bare_state) [0] block_tags = None
   \<and> currentBlock (updateEditorState no_computed_style bare_state) \<noteq> ''p''"
  by code_simp

text \<open>
  C9, amended. When the editor is mounted and the selection has an anchor element, the
  inspector reports the tag of the nearest element at or above the anchor whose tag is in
  the vocabulary \<open>h1, h2, h3, p, div, li, ul, ol\<close>; when there is none, the block signal
  keeps its previous value (which is \<open>p\<close> only until the first report).
\<close>

theorem updateEditorState_currentBlock:
  assumes "editorRef st" and "selection st = Some r"
    and "element_of (doc st) (commonAncestorContainer r) = Some el"
    and "node_at (doc st) el = Some (Element t a cs)"
  shows "case closest (doc st) el block_tags of
           None \<Rightarrow>
             currentBlock (updateEditorState gcs st) = currentBlock st \<and>
             (\<forall>q. is_inclusive_ancestor q el \<longrightarrow> tag_at (doc st) q \<notin> set block_tags)
         | Some b \<Rightarrow>
             currentBlock (updateEditorState gcs st) = tag_at (doc st) b \<and>
             is_inclusive_ancestor b el \<and> tag_at (doc st) b \<in> set block_tags \<and>
             (\<forall>q. is_inclusive_ancestor q el \<and> length b < length q \<longrightarrow>
                  tag_at (doc st) q \<notin> set block_tags)"
proof (cases "closest (doc st) el block_tags")
  case None
  with assms have "currentBlock (updateEditorState gcs st) = currentBlock st"
    by (simp add: updateEditorState_def Let_def)
  with None closest_None [OF None assms(4)] show ?thesis by simp
next
  case (Some b)
  with assms have "currentBlock (updateEditorState gcs st) = tag_at (doc st) b"
    by (simp add: updateEditorState_def Let_def)
  with Some closest_Some [OF Some] show ?thesis by simp
qed

theorem updateEditorState_currentBlock_witness:
  "editorRef hello_state \<and> selection hello_state = Some (span_of [0, 0] 1 [0, 0] 4)
   \<and> element_of (doc hello_state) (commonAncestorContainer (span_of [0, 0] 1 [0, 0] 4)) = Some [0]
   \<and> closest (doc hello_state) [0] block_tags = Some [0]
   \<and> currentBlock (updateEditorState no_computed_style hello_state) = ''p''
   \<and> tag_at (doc hello_state) [0] = ''p''"
proof -
  have h: "editorRef hello_state" "selection hello_state = Some (span_of [0, 0] 1 [0, 0] 4)"
    "element_of (doc hello_state) (commonAncestorContainer (span_of [0, 0] 1 [0, 0] 4)) = Some [0]"
    "node_at (doc hello_state) [0] = Some (Element ''p'' no_attrs [Text ''Hello''])"
    "closest (doc hello_state) [0] block_tags = Some [0]"
    "tag_at (doc hello_state) [0] = ''p''"
    by code_simp+
  from updateEditorState_currentBlock [OF h(1-4), of no_computed_style] h show ?thesis
    by simp
qed

section \<open>The key handler\<close>

text \<open>
  C10. When Control or Meta is held, the key handler calls \<open>preventDefault\<close> whatever the
  key is; for a key other than b, i, u, z and y it then does nothing: the state is as
  before and no command goes to the host.
\<close>

theorem handleKeyDown_prevents_default:
  assumes "ctrlKey e \<or> metaKey e"
  shows "fst (handleKeyDown gcs e st) \<and>
         (toLowerCase (key e) \<notin> {''b'', ''i'', ''u'', ''z'', ''y''} \<longrightarrow>
            snd (handleKeyDown gcs e st) = Returned st)"
  using assms by (simp add: handleKeyDown_def Let_def)

theorem handleKeyDown_prevents_default_witness:
  "(ctrlKey \<lparr>ctrlKey = True, metaKey = False, key = ''C''\<rparr> \<or>
      metaKey \<lparr>ctrlKey = True, metaKey = False, key = ''C''\<rparr>)
   \<and> fst (handleKeyDown no_computed_style \<lparr>ctrlKey = True, metaKey = False, key = ''C''\<rparr>
         hello_state)
   \<and> snd (handleKeyDown no_computed_style \<lparr>ctrlKey = True, metaKey = False, key = ''C''\<rparr>
         hello_state) = Returned hello_state"
  using handleKeyDown_prevents_default
    [of "\<lparr>ctrlKey = True, metaKey = False, key = ''C''\<rparr>" no_computed_style hello_state]
  by (simp add: toLowerCase_def lower_char_def)



lemma map_of_setProperty: "map_of (setProperty p v ds) p = Some v"
proof (cases "p \<in> set (map fst ds)")
  case True
  then have "map_of (map (\<lambda>(k, x). if k = p then (k, v) else (k, x)) ds) p = Some v"
    by (induction ds) auto
  with True show ?thesis by (simp add: setProperty_def)
next
  case False
  then have "map_of ds p = None" by (simp add: map_of_eq_None_iff)
  with False show ?thesis by (simp add: setProperty_def map_add_def)
qed

lemma alignment_class: "alignment_class al \<in> set alignment_classes"
  by (cases al) (simp_all add: alignment_class_def alignment_classes_def)

lemma classList_alignment:
  "filter (\<lambda>c. c \<in> set alignment_classes)
     (classList_add (alignment_class al) (classList_remove alignment_classes cl)) =
   [alignment_class al]"
proof -
  have "filter (\<lambda>c. c \<in> set alignment_classes) (filter (\<lambda>c. c \<notin> set alignment_classes) cl) = []"
    by (induction cl) auto
  moreover have "alignment_class al \<notin> set (filter (\<lambda>c. c \<notin> set alignment_classes) cl)"
    using alignment_class [of al] by simp
  ultimately show ?thesis
    using alignment_class [of al] by (simp add: classList_add_def classList_remove_def)
qed

lemma classList_others:
  "filter (\<lambda>c. c \<notin> set alignment_classes)
     (classList_add (alignment_class al) (classList_remove alignment_classes cl)) =
   filter (\<lambda>c. c \<notin> set alignment_classes) cl"
  using alignment_class [of al] by (simp add: classList_add_def classList_remove_def)

section \<open>Alignment\<close>

text \<open>
  C8. After \<open>formatAlignment\<close> on a state whose selection resolves to an element, that
  element carries exactly one of the class names \<open>text-left\<close>, \<open>text-center\<close> and
  \<open>text-right\<close>, the one requested; its other classes are as before; and its inline
  \<open>text-align\<close> property is the requested value.
\<close>

theorem formatAlignment_sets_alignment:
  assumes "editorRef st" and "selection st = Some r"
    and "element_of (doc st) (commonAncestorContainer r) = Some b"
    and "node_at (doc st) b = Some (Element t a cs)"
  shows "\<exists>a'. node_at (doc (formatAlignment gcs al st)) b = Some (Element t a' cs) \<and>
           filter (\<lambda>c. c \<in> set alignment_classes) (classList a') = [alignment_class al] \<and>
           filter (\<lambda>c. c \<notin> set alignment_classes) (classList a') =
             filter (\<lambda>c. c \<notin> set alignment_classes) (classList a) \<and>
           map_of (style a') ''text-align'' = Some (alignment_name al)"
proof -
  from assms have "doc (formatAlignment gcs al st) =
      replace_at (doc st) b (align_element al (Element t a cs))"
    by (simp add: formatAlignment_def doc_updateEditorState)
  with assms(4) have "node_at (doc (formatAlignment gcs al st)) b =
      Some (align_element al (Element t a cs))"
    by (simp add: node_at_replace_at)
  then show ?thesis
    by (simp add: align_element_def classList_alignment classList_others map_of_setProperty)
qed

theorem formatAlignment_sets_alignment_witness:
  "editorRef aligned_state \<and> selection aligned_state = Some (span_of [0, 0] 1 [0, 0] 4)
   \<and> element_of (doc aligned_state) (commonAncestorContainer (span_of [0, 0] 1 [0, 0] 4)) = Some [0]
   \<and> node_at (doc (formatAlignment no_computed_style center aligned_state)) [0] =
       Some (Element ''p''
               \<lparr>style = [(''text-align'', ''center''), (''color'', ''red'')],
                classList = [''intro'', ''text-center''], attributes = []\<rparr>
               [Text ''Hello''])"
proof -
  have h: "editorRef aligned_state" "selection aligned_state = Some (span_of [0, 0] 1 [0, 0] 4)"
    "element_of (doc aligned_state) (commonAncestorContainer (span_of [0, 0] 1 [0, 0] 4)) = Some [0]"
    "node_at (doc aligned_state) [0] =
       Some (Element ''p''
               \<lparr>style = [(''text-align'', ''left''), (''color'', ''red'')],
                classList = [''intro'', ''text-left'', ''text-right''], attributes = []\<rparr>
               [Text ''Hello''])"
    by code_simp+
  have r: "node_at (doc (formatAlignment no_computed_style center aligned_state)) [0] =
       Some (Element ''p''
               \<lparr>style = [(''text-align'', ''center''), (''color'', ''red'')],
                classList = [''intro'', ''text-center''], attributes = []\<rparr>
               [Text ''Hello''])"
    by code_simp
  from formatAlignment_sets_alignment [OF h(1-4), of no_computed_style center] h r
  show ?thesis by simp
qed

section \<open>Links\<close>






section \<open>Lists\<close>




section \<open>Block type\<close>




section \<open>Wrapping a range\<close>




















section \<open>Inline styles outside the reach of the wrap primitive\<close>










end
